theory Spec2Isabelle
  imports Complex_Main "HOL-Library.Multiset" "HOL-Library.Sublist"
begin

section \<open>Data structures\<close>

text \<open>
  The dataclass \<^verbatim>\<open>TestResult\<close> of httploader.py. Python's unbounded integers are
  \<open>int\<close>; its floats (wall-clock differences and the derived rates) are idealised as
  \<open>real\<close>, so every formula below is the exact one, without rounding. The optional
  error string is a \<open>string option\<close>: \<open>None\<close> is Python's \<^verbatim>\<open>None\<close>.
\<close>

record TestResult =
  status_code :: int
  response_time :: real
  response_size_bytes :: int
  error :: "string option"

text \<open>
  Python tests the error in two different ways: \<^verbatim>\<open>r.error is None\<close> (identity with
  \<^verbatim>\<open>None\<close>) and plain \<^verbatim>\<open>r.error\<close> (truthiness: neither \<^verbatim>\<open>None\<close> nor the empty
  string).
\<close>

definition truthy :: "string option \<Rightarrow> bool" where
  "truthy e = (case e of None \<Rightarrow> False | Some s \<Rightarrow> s \<noteq> [])"

section \<open>Statistics calculator\<close>

subsection \<open>The numpy functions used by the report\<close>

text \<open>
  numpy is an external library. Its functions are written out after their documented
  behaviour: the arithmetic mean, the smallest and largest sample, the population
  standard deviation, and the percentile with the default linear interpolation between
  the two order statistics around the position \<open>q / 100 * (n - 1)\<close>.
\<close>

definition np_mean :: "real list \<Rightarrow> real" where
  "np_mean xs = sum_list xs / real (length xs)"

definition np_min :: "real list \<Rightarrow> real" where
  "np_min xs = Min (set xs)"

definition np_max :: "real list \<Rightarrow> real" where
  "np_max xs = Max (set xs)"

definition np_std :: "real list \<Rightarrow> real" where
  "np_std xs = sqrt (np_mean (map (\<lambda>x. (x - np_mean xs)\<^sup>2) xs))"

definition np_percentile :: "real list \<Rightarrow> real \<Rightarrow> real" where
  "np_percentile xs q =
     (let s = sort xs;
          n = length s;
          pos = q / 100 * real (n - 1);
          lo = nat \<lfloor>pos\<rfloor>;
          hi = min (lo + 1) (n - 1)
      in s ! lo + (pos - real lo) * (s ! hi - s ! lo))"

subsection \<open>The report\<close>

record latency_stats =
  average :: real
  median :: real
  minimum :: real
  maximum :: real
  standard_dev :: real
  p90 :: real
  p95 :: real
  p99 :: real

text \<open>
  \<^verbatim>\<open>print_summary\<close> prints its figures; the model returns them in a record, before
  the formatting to two decimals. The histogram and the status and error breakdowns
  that follow in the printout do not feed any of these figures and are not part of the
  record.
\<close>

record report =
  total_duration :: real
  total_reqs :: nat
  actual_rps :: real
  total_data :: int
  throughput_mbps :: real
  n_successes :: nat
  success_rate :: real
  n_failures :: nat
  failure_rate :: real
  latency :: "latency_stats option"

definition get_response_times :: "TestResult list \<Rightarrow> real list" where
  "get_response_times results = map response_time (filter (\<lambda>r. error r = None) results)"

definition is_success :: "TestResult \<Rightarrow> bool" where
  "is_success r \<longleftrightarrow> 200 \<le> status_code r \<and> status_code r < 400 \<and> error r = None"

definition is_failure :: "TestResult \<Rightarrow> bool" where
  "is_failure r \<longleftrightarrow> status_code r \<ge> 400 \<or> truthy (error r) \<or> status_code r = - 1"

definition successes :: "TestResult list \<Rightarrow> TestResult list" where
  "successes results = filter is_success results"

definition failures :: "TestResult list \<Rightarrow> TestResult list" where
  "failures results = filter is_failure results"

definition latency_section :: "real list \<Rightarrow> latency_stats option" where
  "latency_section response_times =
     (if response_times \<noteq> [] then
        (let latencies_ms = map (\<lambda>t. t * 1000) response_times in
         Some \<lparr> average = np_mean latencies_ms,
                median = np_percentile latencies_ms 50,
                minimum = np_min latencies_ms,
                maximum = np_max latencies_ms,
                standard_dev = np_std latencies_ms,
                p90 = np_percentile latencies_ms 90,
                p95 = np_percentile latencies_ms 95,
                p99 = np_percentile latencies_ms 99 \<rparr>)
      else None)"

text \<open>
  \<open>None\<close> is the early return on an empty result list ("No results to display").
\<close>

definition print_summary :: "TestResult list \<Rightarrow> real \<Rightarrow> report option" where
  "print_summary results duration =
     (if results = [] then None
      else
        (let n = length results;
             succ = successes results;
             fail = failures results;
             data = sum_list (map response_size_bytes results)
         in Some \<lparr> total_duration = duration,
                   total_reqs = n,
                   actual_rps = (if duration > 0 then real n / duration else 0),
                   total_data = data,
                   throughput_mbps =
                     (if duration > 0 then real_of_int (data * 8) / (duration * 1000000) else 0),
                   n_successes = length succ,
                   success_rate = (if n > 0 then real (length succ) / real n * 100 else 0),
                   n_failures = length fail,
                   failure_rate = (if n > 0 then real (length fail) / real n * 100 else 0),
                   latency = latency_section (get_response_times results) \<rparr>))"

section \<open>The tester\<close>

subsection \<open>Configuration and construction\<close>

text \<open>
  The keyword arguments of \<^verbatim>\<open>AdvancedLoadTester\<close> that the scheduling and the
  validation read. Headers and payload only travel into the HTTP call, whose behaviour
  is an input of the model (see \<open>transport\<close> below).
\<close>

record config =
  url :: string
  http_method :: string
  requests :: int
  concurrent :: int
  rate :: int

text \<open>
  \<open>ValueError\<close> is the exception of the validation; \<open>Interrupt\<close> stands for an
  exception that is not an \<^verbatim>\<open>Exception\<close> (\<^verbatim>\<open>CancelledError\<close>,
  \<^verbatim>\<open>KeyboardInterrupt\<close>), which no handler of the tester catches.
\<close>

datatype py_error = ValueError string | Interrupt string

text \<open>\<^verbatim>\<open>asyncio.Semaphore(value)\<close> refuses a negative initial value.\<close>

definition Semaphore :: "int \<Rightarrow> py_error + int" where
  "Semaphore v =
     (if v < 0 then Inl (ValueError ''Semaphore initial value must be >= 0'') else Inr v)"

definition startswith :: "string \<Rightarrow> string list \<Rightarrow> bool" where
  "startswith s ps = list_ex (\<lambda>p. prefix p s) ps"

definition validate_config :: "config \<Rightarrow> py_error + unit" where
  "validate_config c =
     (if requests c \<le> 0 then Inl (ValueError ''Number of requests must be greater than 0'')
      else if concurrent c \<le> 0 then Inl (ValueError ''Concurrency must be greater than 0'')
      else if rate c \<le> 0 then Inl (ValueError ''Rate limit must be greater than 0'')
      else if \<not> startswith (url c) [''http://'', ''https://'']
        then Inl (ValueError ''URL must start with http:// or https://'')
      else Inr ())"

record tester =
  cfg :: config
  results :: "TestResult list"
  semaphore :: int

text \<open>\<^verbatim>\<open>__init__\<close>: the semaphore is built first, then the configuration is validated.\<close>

definition AdvancedLoadTester :: "config \<Rightarrow> py_error + tester" where
  "AdvancedLoadTester c =
     (case Semaphore (concurrent c) of
        Inl e \<Rightarrow> Inl e
      | Inr sem \<Rightarrow>
          (case validate_config c of
             Inl e \<Rightarrow> Inl e
           | Inr _ \<Rightarrow> Inr \<lparr> cfg = c, results = [], semaphore = sem \<rparr>))"

subsection \<open>One request\<close>

text \<open>
  What the \<^verbatim>\<open>try\<close> block of one request meets is an input. The HTTP call answers with
  a status, a body of some length and an elapsed time, or it raises. \<open>RaisesBeforeCall\<close>
  is an exception raised before the call is made: \<^verbatim>\<open>getattr(session, ...)\<close> raises
  \<^verbatim>\<open>AttributeError\<close> when the session has no attribute of the lower-cased method name
  (a method such as \<^verbatim>\<open>FOO\<close>, which the command line passes on unchecked). The elapsed
  time is the difference of the two \<^verbatim>\<open>time.time()\<close> readings.
\<close>

datatype transport =
    Responds int nat real
  | RaisesTimeoutError real
  | RaisesClientError string real
  | RaisesException string real
  | RaisesBeforeCall string real
  | RaisesBaseException string

datatype outcome =
    Returned TestResult
  | RaisedException string
  | RaisedBaseException string

text \<open>The \<^verbatim>\<open>try\<close> block of \<^verbatim>\<open>single_request\<close> with its three handlers.\<close>

fun attempt :: "transport \<Rightarrow> outcome" where
  "attempt (Responds status len elapsed) =
     Returned \<lparr> status_code = status, response_time = elapsed,
                response_size_bytes = int len, error = None \<rparr>"
| "attempt (RaisesTimeoutError elapsed) =
     Returned \<lparr> status_code = - 1, response_time = elapsed,
                response_size_bytes = 0, error = Some ''TimeoutError'' \<rparr>"
| "attempt (RaisesClientError name elapsed) =
     Returned \<lparr> status_code = - 1, response_time = elapsed,
                response_size_bytes = 0, error = Some (''ClientError: '' @ name) \<rparr>"
| "attempt (RaisesException name elapsed) =
     Returned \<lparr> status_code = - 1, response_time = elapsed,
                response_size_bytes = 0, error = Some (''UnexpectedError: '' @ name) \<rparr>"
| "attempt (RaisesBeforeCall name elapsed) =
     Returned \<lparr> status_code = - 1, response_time = elapsed,
                response_size_bytes = 0, error = Some (''UnexpectedError: '' @ name) \<rparr>"
| "attempt (RaisesBaseException name) = RaisedBaseException name"

text \<open>Whether the line that calls the session's method is reached.\<close>

fun call_made :: "transport \<Rightarrow> bool" where
  "call_made (RaisesBeforeCall name elapsed) = False"
| "call_made tr = True"

text \<open>
  The steps of one invocation, in program order: entering \<^verbatim>\<open>async with self.semaphore\<close>,
  the \<^verbatim>\<open>asyncio.sleep\<close> under \<^verbatim>\<open>if request_delay\<close> (skipped for \<^verbatim>\<open>None\<close> and for 0),
  the first clock reading, the HTTP call unless an exception came before it, and leaving
  the \<^verbatim>\<open>async with\<close> block.
\<close>

datatype event = Acquire | Sleep int | StartTimer | HttpCall | Release

definition single_request :: "int option \<Rightarrow> transport \<Rightarrow> event list \<times> outcome" where
  "single_request request_delay tr =
     ([Acquire]
        @ (case request_delay of
             None \<Rightarrow> []
           | Some d \<Rightarrow> if d \<noteq> 0 then [Sleep d] else [])
        @ [StartTimer]
        @ (if call_made tr then [HttpCall] else [])
        @ [Release],
      attempt tr)"

subsection \<open>The run\<close>

definition delay :: "config \<Rightarrow> nat \<Rightarrow> int" where
  "delay c i = (if rate c > 0 then int i div rate c else 0)"

definition tasks :: "config \<Rightarrow> (nat \<Rightarrow> transport) \<Rightarrow> (event list \<times> outcome) list" where
  "tasks c env = map (\<lambda>i. single_request (Some (delay c i)) (env i)) [0..<nat (requests c)]"

definition TaskError :: "string \<Rightarrow> TestResult" where
  "TaskError name =
     \<lparr> status_code = - 1, response_time = 0, response_size_bytes = 0,
       error = Some (''TaskError: '' @ name) \<rparr>"

text \<open>
  \<^verbatim>\<open>asyncio.as_completed(tasks)\<close> hands out every task of the list once, in the order
  in which the tasks complete. The time at which the task of each index completes is an
  input; tasks that complete at the same time come in the order of the list.
\<close>

definition as_completed :: "(nat \<Rightarrow> real) \<Rightarrow> 'a list \<Rightarrow> 'a list" where
  "as_completed finished_at ts = map (\<lambda>k. ts ! k) (sort_key finished_at [0..<length ts])"

text \<open>
  The loop over \<^verbatim>\<open>asyncio.as_completed(tasks)\<close>. A returned value is appended (the
  \<^verbatim>\<open>isinstance\<close> test holds for every value a task returns, which the type of
  \<open>Returned\<close> expresses), an \<^verbatim>\<open>Exception\<close> is replaced by a result built on the spot,
  anything else leaves the loop and the run. The progress bar is taken to work.
\<close>

fun collect :: "outcome list \<Rightarrow> TestResult list \<Rightarrow> py_error + TestResult list" where
  "collect [] acc = Inr acc"
| "collect (Returned r # rest) acc = collect rest (acc @ [r])"
| "collect (RaisedException name # rest) acc = collect rest (acc @ [TaskError name])"
| "collect (RaisedBaseException name # rest) acc = Inl (Interrupt name)"

definition run_test :: "config \<Rightarrow> (nat \<Rightarrow> transport) \<Rightarrow> (nat \<Rightarrow> real) \<Rightarrow> py_error + TestResult list" where
  "run_test c env finished_at =
     collect (map snd (as_completed finished_at (tasks c env))) []"

datatype main_outcome =
    ConfigurationError string
  | Propagated string
  | Summary "report option"

definition main :: "config \<Rightarrow> (nat \<Rightarrow> transport) \<Rightarrow> (nat \<Rightarrow> real) \<Rightarrow> real \<Rightarrow> main_outcome" where
  "main c env finished_at total_time =
     (case AdvancedLoadTester c of
        Inl (ValueError msg) \<Rightarrow> ConfigurationError msg
      | Inl (Interrupt name) \<Rightarrow> Propagated name
      | Inr t \<Rightarrow>
          (case run_test (cfg t) env finished_at of
             Inl (ValueError msg) \<Rightarrow> ConfigurationError msg
           | Inl (Interrupt name) \<Rightarrow> Propagated name
           | Inr rs \<Rightarrow> Summary (print_summary rs total_time)))"

subsection \<open>The semaphore under interleaving\<close>

text \<open>
  The invocations as they share the semaphore. An invocation waits for the semaphore,
  holds it, or is done. \<^verbatim>\<open>asyncio.Semaphore\<close> lets an invocation in only while its
  value is positive and lowers it; leaving the \<^verbatim>\<open>async with\<close> block raises it again,
  however the block is left. An interleaving is a list of actions.
\<close>

datatype phase = Waiting | Holding | Done outcome

record pool =
  sem_value :: int
  phases :: "phase list"

datatype action = Acquires nat | Finishes nat transport | CancelledWaiting nat

definition start :: "tester \<Rightarrow> pool" where
  "start t = \<lparr> sem_value = semaphore t,
               phases = replicate (nat (requests (cfg t))) Waiting \<rparr>"

fun step :: "pool \<Rightarrow> action \<Rightarrow> pool option" where
  "step s (Acquires i) =
     (if i < length (phases s) \<and> phases s ! i = Waiting \<and> sem_value s > 0
      then Some \<lparr> sem_value = sem_value s - 1, phases = (phases s)[i := Holding] \<rparr>
      else None)"
| "step s (Finishes i tr) =
     (if i < length (phases s) \<and> phases s ! i = Holding
      then Some \<lparr> sem_value = sem_value s + 1, phases = (phases s)[i := Done (attempt tr)] \<rparr>
      else None)"
| "step s (CancelledWaiting i) =
     (if i < length (phases s) \<and> phases s ! i = Waiting
      then Some \<lparr> sem_value = sem_value s,
                  phases = (phases s)[i := Done (RaisedBaseException ''CancelledError'')] \<rparr>
      else None)"

fun steps :: "pool \<Rightarrow> action list \<Rightarrow> pool option" where
  "steps s [] = Some s"
| "steps s (a # as) = (case step s a of None \<Rightarrow> None | Some s' \<Rightarrow> steps s' as)"

definition holders :: "pool \<Rightarrow> nat" where
  "holders s = length (filter (\<lambda>p. p = Holding) (phases s))"

subsection \<open>Time before the HTTP call\<close>

text \<open>
  The time an invocation spends before its HTTP call, from the moment it starts
  running: the wait for the semaphore, and the sleep, which lasts the requested number
  of seconds and whatever the event loop adds.
\<close>

record timing =
  acquire_wait :: real
  oversleep :: real

fun time_before_call :: "timing \<Rightarrow> event list \<Rightarrow> real" where
  "time_before_call tm [] = 0"
| "time_before_call tm (HttpCall # es) = 0"
| "time_before_call tm (Acquire # es) = acquire_wait tm + time_before_call tm es"
| "time_before_call tm (Sleep d # es) = real_of_int d + oversleep tm + time_before_call tm es"
| "time_before_call tm (e # es) = time_before_call tm es"

text \<open>\<open>precedes a b es\<close>: both events occur and the first \<open>a\<close> comes before the first \<open>b\<close>.\<close>

definition precedes :: "event \<Rightarrow> event \<Rightarrow> event list \<Rightarrow> bool" where
  "precedes a b es \<longleftrightarrow> a \<in> set (takeWhile (\<lambda>e. e \<noteq> b) es) \<and> b \<in> set es"

section \<open>Auxiliary facts\<close>

subsection \<open>Lists\<close>

lemma filter_disjoint_le:
  "\<forall>x. \<not> (P x \<and> Q x) \<Longrightarrow> length (filter P xs) + length (filter Q xs) \<le> length xs"
  by (induction xs) auto

lemma filter_disjoint_length:
  "\<forall>x. \<not> (P x \<and> Q x) \<Longrightarrow> y \<in> set xs \<Longrightarrow> \<not> P y \<Longrightarrow> \<not> Q y \<Longrightarrow>
   length (filter P xs) + length (filter Q xs) < length xs"
proof (induction xs)
  case Nil then show ?case by simp
next
  case (Cons x xs)
  have le: "length (filter P xs) + length (filter Q xs) \<le> length xs"
    using Cons.prems(1) by (rule filter_disjoint_le)
  show ?case
  proof (cases "y = x")
    case True
    with Cons.prems le show ?thesis by simp
  next
    case False
    with Cons.prems have "y \<in> set xs" by simp
    with Cons have "length (filter P xs) + length (filter Q xs) < length xs" by simp
    moreover have "\<not> (P x \<and> Q x)" using Cons.prems(1) by simp
    ultimately show ?thesis by auto
  qed
qed

lemma filter_update_length:
  "i < length xs \<Longrightarrow>
   length (filter P (xs[i := v])) + (if P (xs ! i) then 1 else 0)
     = length (filter P xs) + (if P v then 1 else 0)"
proof (induction xs arbitrary: i)
  case Nil then show ?case by simp
next
  case (Cons x xs)
  show ?case
  proof (cases i)
    case 0 then show ?thesis by simp
  next
    case (Suc j)
    with Cons.prems have "j < length xs" by simp
    from Cons.IH[OF this] Suc show ?thesis by simp
  qed
qed

lemma all2_in_set: "list_all2 P xs ys \<Longrightarrow> y \<in> set ys \<Longrightarrow> \<exists>x \<in> set xs. P x y"
  by (induction rule: list_all2_induct) auto

subsection \<open>Classification\<close>

lemma success_not_failure: "\<not> (is_success r \<and> is_failure r)"
  by (auto simp: is_success_def is_failure_def truthy_def)

subsection \<open>Construction\<close>

lemma init_Inl: "AdvancedLoadTester c = Inl e \<Longrightarrow> \<exists>msg. e = ValueError msg"
  by (auto simp: AdvancedLoadTester_def Semaphore_def validate_config_def
       split: sum.splits if_splits)

lemma init_fails_iff:
  "(\<exists>msg. AdvancedLoadTester c = Inl (ValueError msg)) \<longleftrightarrow>
     (requests c \<le> 0 \<or> concurrent c \<le> 0 \<or> rate c \<le> 0
      \<or> \<not> (prefix ''http://'' (url c) \<or> prefix ''https://'' (url c)))"
  by (auto simp: AdvancedLoadTester_def Semaphore_def validate_config_def startswith_def
       split: sum.splits if_splits)

subsection \<open>Order of completion\<close>

lemma pos_nth:
  "distinct xs \<Longrightarrow> i < length xs \<Longrightarrow> length (takeWhile (\<lambda>j. j \<noteq> xs ! i) xs) = i"
proof (induction xs arbitrary: i)
  case Nil then show ?case by simp
next
  case (Cons x xs)
  show ?case
  proof (cases i)
    case 0 then show ?thesis by simp
  next
    case (Suc k)
    with Cons.prems have "k < length xs" "distinct xs" "x \<noteq> xs ! k" by auto
    with Cons.IH[of k] Suc show ?thesis by simp
  qed
qed

lemma map_pos:
  "distinct xs \<Longrightarrow> map (\<lambda>i. length (takeWhile (\<lambda>j. j \<noteq> i) xs)) xs = [0..<length xs]"
  by (rule nth_equalityI) (simp_all add: pos_nth)

text \<open>Every order of the indices is the order of completion for suitable times.\<close>

lemma any_completion_order:
  assumes "mset order = mset [0..<n]"
  shows "\<exists>finished_at :: nat \<Rightarrow> real. sort_key finished_at [0..<n] = order"
proof -
  let ?p = "\<lambda>i. length (takeWhile (\<lambda>j. j \<noteq> i) order)"
  let ?f = "\<lambda>i. real (?p i)"
  have d: "distinct order" using assms by (metis distinct_upt mset_eq_imp_distinct_iff)
  have m: "map ?p order = [0..<length order]" using d by (rule map_pos)
  have "map ?f order = map real (map ?p order)" by simp
  also have "\<dots> = map real [0..<length order]" using m by simp
  finally have s: "sorted (map ?f order)"
    by (simp add: sorted_map strict_sorted_iff sorted_wrt_iff_nth_less)
  have "inj_on ?p (set order)" using m by (metis distinct_upt distinct_map)
  then have "inj_on ?f (set order)" by (auto simp: inj_on_def)
  moreover have "set [0..<n] = set order" using assms by (metis mset_eq_setD)
  ultimately have i: "inj_on ?f (set [0..<n])" by simp
  have "sort_key ?f [0..<n] = order"
    using assms i s by (intro sort_key_inj_key_eq) auto
  then show ?thesis by blast
qed

lemma as_completed_tasks:
  "map snd (as_completed finished_at (tasks c env))
     = map (\<lambda>k. attempt (env k)) (sort_key finished_at [0..<nat (requests c)])"
  by (simp add: as_completed_def tasks_def single_request_def)

subsection \<open>The collection loop\<close>

lemma collect_not_ValueError: "collect ts acc \<noteq> Inl (ValueError msg)"
  by (induction ts acc rule: collect.induct) auto

lemma collect_acc:
  "collect ts acc = Inr rs \<Longrightarrow>
     \<exists>new. rs = acc @ new \<and>
       list_all2 (\<lambda>t r. t = Returned r \<or> (\<exists>name. t = RaisedException name \<and> r = TaskError name)) ts new"
proof (induction ts acc arbitrary: rs rule: collect.induct)
  case (1 acc)
  then show ?case by simp
next
  case (2 r rest acc)
  then obtain new where "rs = (acc @ [r]) @ new"
     "list_all2 (\<lambda>t r. t = Returned r \<or> (\<exists>name. t = RaisedException name \<and> r = TaskError name)) rest new"
    by fastforce
  then show ?case by (intro exI[of _ "r # new"]) simp
next
  case (3 name rest acc)
  then obtain new where "rs = (acc @ [TaskError name]) @ new"
     "list_all2 (\<lambda>t r. t = Returned r \<or> (\<exists>name. t = RaisedException name \<and> r = TaskError name)) rest new"
    by fastforce
  then show ?case by (intro exI[of _ "TaskError name # new"]) simp
next
  case (4 name rest acc)
  then show ?case by simp
qed

lemma collect_total:
  "\<forall>t \<in> set ts. \<forall>name. t \<noteq> RaisedBaseException name \<Longrightarrow> \<exists>rs. collect ts acc = Inr rs"
  by (induction ts acc rule: collect.induct) auto

lemma collect_all2:
  "collect ts [] = Inr rs \<Longrightarrow>
     list_all2 (\<lambda>t r. t = Returned r \<or> (\<exists>name. t = RaisedException name \<and> r = TaskError name)) ts rs"
  using collect_acc[of ts "[]" rs] by simp

lemma TaskError_is_failure: "is_failure (TaskError name) \<and> \<not> is_success (TaskError name)"
  by (simp add: TaskError_def is_failure_def is_success_def)

lemma collect_all2_explicit:
  assumes "collect ts [] = Inr rs"
  shows "list_all2 (\<lambda>t r. t = Returned r \<or> (\<exists>name. t = RaisedException name
           \<and> r = \<lparr>status_code = - 1, response_time = 0, response_size_bytes = 0,
                   error = Some (''TaskError: '' @ name)\<rparr>
           \<and> is_failure r \<and> \<not> is_success r)) ts rs"
proof -
  have "\<And>t r. t = Returned r \<or> (\<exists>name. t = RaisedException name \<and> r = TaskError name) \<Longrightarrow>
          t = Returned r \<or> (\<exists>name. t = RaisedException name
           \<and> r = \<lparr>status_code = - 1, response_time = 0, response_size_bytes = 0,
                   error = Some (''TaskError: '' @ name)\<rparr>
           \<and> is_failure r \<and> \<not> is_success r)"
    using TaskError_is_failure by (auto simp: TaskError_def)
  with collect_all2[OF assms] show ?thesis by (rule list_all2_mono)
qed

lemma collect_members:
  "collect ts [] = Inr rs \<Longrightarrow> r \<in> set rs \<Longrightarrow>
     Returned r \<in> set ts \<or> (\<exists>name. RaisedException name \<in> set ts \<and> r = TaskError name)"
  using all2_in_set[OF collect_all2, of ts rs r] by auto

lemma attempt_not_RaisedException: "attempt tr \<noteq> RaisedException name"
  by (cases tr) auto

lemma attempt_base: "attempt tr = RaisedBaseException name \<longleftrightarrow> tr = RaisesBaseException name"
  by (cases tr) auto


lemma run_test_attempts:
  "run_test c env finished_at
     = collect (map (\<lambda>k. attempt (env k)) (sort_key finished_at [0..<nat (requests c)])) []"
  by (simp add: run_test_def as_completed_tasks)

lemma run_test_all2:
  assumes "run_test c env finished_at = Inr rs"
  shows "list_all2 (\<lambda>k r. attempt (env k) = Returned r)
           (sort_key finished_at [0..<nat (requests c)]) rs"
proof -
  have "list_all2 (\<lambda>t r. t = Returned r \<or> (\<exists>name. t = RaisedException name \<and> r = TaskError name))
          (map (\<lambda>k. attempt (env k)) (sort_key finished_at [0..<nat (requests c)])) rs"
    using assms collect_all2 by (simp add: run_test_attempts)
  then show ?thesis by (simp add: list_all2_map1 attempt_not_RaisedException)
qed

subsection \<open>The semaphore\<close>

lemma step_keeps_total:
  assumes "step s a = Some s'"
  shows "sem_value s' + int (holders s') = sem_value s + int (holders s)"
proof (cases a)
  case (Acquires i)
  with assms have i: "i < length (phases s)" "phases s ! i = Waiting"
    and s': "s' = \<lparr>sem_value = sem_value s - 1, phases = (phases s)[i := Holding]\<rparr>"
    by (auto split: if_splits)
  from filter_update_length[OF i(1), of "\<lambda>p. p = Holding" Holding] i(2)
  have "holders s' = holders s + 1" by (simp add: holders_def s')
  then show ?thesis by (simp add: s')
next
  case (Finishes i tr)
  with assms have i: "i < length (phases s)" "phases s ! i = Holding"
    and s': "s' = \<lparr>sem_value = sem_value s + 1, phases = (phases s)[i := Done (attempt tr)]\<rparr>"
    by (auto split: if_splits)
  from filter_update_length[OF i(1), of "\<lambda>p. p = Holding" "Done (attempt tr)"] i(2)
  have "holders s' + 1 = holders s" by (simp add: holders_def s')
  then show ?thesis by (simp add: s')
next
  case (CancelledWaiting i)
  with assms have i: "i < length (phases s)" "phases s ! i = Waiting"
    and s': "s' = \<lparr>sem_value = sem_value s,
                    phases = (phases s)[i := Done (RaisedBaseException ''CancelledError'')]\<rparr>"
    by (auto split: if_splits)
  from filter_update_length[OF i(1), of "\<lambda>p. p = Holding" "Done (RaisedBaseException ''CancelledError'')"] i(2)
  have "holders s' = holders s" by (simp add: holders_def s')
  then show ?thesis by (simp add: s')
qed

lemma step_sem_nonneg: "step s a = Some s' \<Longrightarrow> 0 \<le> sem_value s \<Longrightarrow> 0 \<le> sem_value s'"
  by (cases a) (auto split: if_splits)

lemma steps_keep_total:
  "steps s acts = Some s' \<Longrightarrow> 0 \<le> sem_value s \<Longrightarrow>
   sem_value s' + int (holders s') = sem_value s + int (holders s) \<and> 0 \<le> sem_value s'"
proof (induction acts arbitrary: s)
  case Nil then show ?case by simp
next
  case (Cons a acts)
  from Cons.prems(1) obtain s1 where s1: "step s a = Some s1" "steps s1 acts = Some s'"
    by (auto split: option.splits)
  from step_sem_nonneg[OF s1(1) Cons.prems(2)] have "0 \<le> sem_value s1" .
  from Cons.IH[OF s1(2) this] step_keeps_total[OF s1(1)] show ?case by simp
qed

lemma holders_start: "holders (start t) = 0"
  by (simp add: holders_def start_def)

lemma finish_step:
  assumes "i < length (phases s)" "phases s ! i = Holding"
  shows "\<exists>s'. step s (Finishes i tr) = Some s' \<and> sem_value s' = sem_value s + 1
            \<and> holders s' + 1 = holders s \<and> phases s' ! i = Done (attempt tr)"
proof -
  from filter_update_length[OF assms(1), of "\<lambda>p. p = Holding" "Done (attempt tr)"] assms(2)
  have "length (filter (\<lambda>p. p = Holding) ((phases s)[i := Done (attempt tr)])) + 1 = holders s"
    by (simp add: holders_def)
  with assms show ?thesis by (simp add: holders_def)
qed

lemma trace_ends_with_release: "last (fst (single_request d tr)) = Release"
  by (simp add: single_request_def)

lemma time_before_call_trace:
  "time_before_call tm (fst (single_request (Some d) tr)) =
     acquire_wait tm + (if d \<noteq> 0 then real_of_int d + oversleep tm else 0)"
  by (simp add: single_request_def)

section \<open>Result collection\<close>

text \<open>
  Claim C1. A run with \<open>N \<ge> 1\<close> requests: if the run completes, the collected list has
  exactly \<open>N\<close> results, one for each of the \<open>N\<close> tasks, in their order of completion,
  each being the result that task returned; the order of completion holds every index
  once, and every order of the indices can be the order of completion. The run completes,
  with \<open>N\<close> results, whenever no task is interrupted, whatever the HTTP calls do (answer,
  time out, fail). The collection loop itself completes on every list of outcomes that
  holds no interruption, with one result for each outcome: a task that raises an
  exception is replaced by a result with status \<open>-1\<close>, no time, no bytes and the error
  \<open>TaskError: \<close> followed by the name of the exception, which is a failure.
\<close>

theorem run_test_collects_exactly_N:
  assumes "1 \<le> requests c"
  shows "(run_test c env finished_at = Inr rs \<longrightarrow>
            length rs = nat (requests c)
          \<and> mset (sort_key finished_at [0..<nat (requests c)]) = mset [0..<nat (requests c)]
          \<and> list_all2 (\<lambda>k r. attempt (env k) = Returned r)
               (sort_key finished_at [0..<nat (requests c)]) rs)
       \<and> ((\<forall>i < nat (requests c). \<forall>name. env i \<noteq> RaisesBaseException name) \<longrightarrow>
            (\<exists>rs'. run_test c env finished_at = Inr rs' \<and> length rs' = nat (requests c)))
       \<and> (\<forall>order. mset order = mset [0..<nat (requests c)] \<longrightarrow>
            (\<exists>fin :: nat \<Rightarrow> real. sort_key fin [0..<nat (requests c)] = order))
       \<and> (\<forall>ts. (\<forall>t \<in> set ts. \<forall>name. t \<noteq> RaisedBaseException name) \<longrightarrow>
            (\<exists>rs'. collect ts [] = Inr rs' \<and> length rs' = length ts
               \<and> list_all2 (\<lambda>t r. t = Returned r \<or> (\<exists>name. t = RaisedException name
                    \<and> r = \<lparr>status_code = - 1, response_time = 0, response_size_bytes = 0,
                            error = Some (''TaskError: '' @ name)\<rparr>
                    \<and> is_failure r \<and> \<not> is_success r)) ts rs'))"
proof -
  let ?ord = "sort_key finished_at [0..<nat (requests c)]"
  have len: "\<And>xs. run_test c env finished_at = Inr xs \<Longrightarrow> length xs = nat (requests c)"
  proof -
    fix xs assume "run_test c env finished_at = Inr xs"
    from run_test_all2[OF this] have "length ?ord = length xs" by (rule list_all2_lengthD)
    then show "length xs = nat (requests c)" by simp
  qed
  have A: "run_test c env finished_at = Inr rs \<longrightarrow>
            length rs = nat (requests c) \<and> mset ?ord = mset [0..<nat (requests c)]
          \<and> list_all2 (\<lambda>k r. attempt (env k) = Returned r) ?ord rs"
    using len run_test_all2 by simp
  have B: "(\<forall>i < nat (requests c). \<forall>name. env i \<noteq> RaisesBaseException name) \<longrightarrow>
            (\<exists>rs'. run_test c env finished_at = Inr rs' \<and> length rs' = nat (requests c))"
  proof
    assume h: "\<forall>i < nat (requests c). \<forall>name. env i \<noteq> RaisesBaseException name"
    have "\<forall>t \<in> set (map (\<lambda>k. attempt (env k)) ?ord). \<forall>name. t \<noteq> RaisedBaseException name"
      using h by (auto simp: attempt_base)
    from collect_total[OF this, of "[]"]
    obtain rs' where "run_test c env finished_at = Inr rs'" by (auto simp: run_test_attempts)
    with len show "\<exists>rs'. run_test c env finished_at = Inr rs' \<and> length rs' = nat (requests c)"
      by blast
  qed
  have C: "\<forall>order. mset order = mset [0..<nat (requests c)] \<longrightarrow>
            (\<exists>fin :: nat \<Rightarrow> real. sort_key fin [0..<nat (requests c)] = order)"
    using any_completion_order by blast
  have D: "\<forall>ts. (\<forall>t \<in> set ts. \<forall>name. t \<noteq> RaisedBaseException name) \<longrightarrow>
            (\<exists>rs'. collect ts [] = Inr rs' \<and> length rs' = length ts
               \<and> list_all2 (\<lambda>t r. t = Returned r \<or> (\<exists>name. t = RaisedException name
                    \<and> r = \<lparr>status_code = - 1, response_time = 0, response_size_bytes = 0,
                            error = Some (''TaskError: '' @ name)\<rparr>
                    \<and> is_failure r \<and> \<not> is_success r)) ts rs')"
  proof (intro allI impI)
    fix ts assume "\<forall>t \<in> set ts. \<forall>name. t \<noteq> RaisedBaseException name"
    from collect_total[OF this, of "[]"] obtain rs' where r: "collect ts [] = Inr rs'" by blast
    note l = collect_all2_explicit[OF r]
    from l have "length ts = length rs'" by (rule list_all2_lengthD)
    with r l show "\<exists>rs'. collect ts [] = Inr rs' \<and> length rs' = length ts
               \<and> list_all2 (\<lambda>t r. t = Returned r \<or> (\<exists>name. t = RaisedException name
                    \<and> r = \<lparr>status_code = - 1, response_time = 0, response_size_bytes = 0,
                            error = Some (''TaskError: '' @ name)\<rparr>
                    \<and> is_failure r \<and> \<not> is_success r)) ts rs'"
      by auto
  qed
  from A B C D show ?thesis by blast
qed

text \<open>
  Three requests whose HTTP calls all fail (a timeout after 30 s, a client error after
  10 ms, an unexpected exception at once), the third completing first: the run completes
  with three results, in the order 2, 1, 0.
\<close>

theorem run_test_collects_exactly_N_witness:
  "1 \<le> requests \<lparr>url = ''http://localhost:8080/api'', http_method = ''GET'', requests = 3,
                   concurrent = 2, rate = 2\<rparr>
   \<and> run_test \<lparr>url = ''http://localhost:8080/api'', http_method = ''GET'', requests = 3,
                concurrent = 2, rate = 2\<rparr>
        ((\<lambda>i. RaisesTimeoutError 30)
           (1 := RaisesClientError ''ClientConnectorError'' (1/100),
            2 := RaisesException ''RuntimeError'' 0))
        ((\<lambda>i. 30)(1 := 1/100, 2 := 0))
      = Inr [\<lparr>status_code = - 1, response_time = 0, response_size_bytes = 0,
               error = Some ''UnexpectedError: RuntimeError''\<rparr>,
             \<lparr>status_code = - 1, response_time = 1/100, response_size_bytes = 0,
               error = Some ''ClientError: ClientConnectorError''\<rparr>,
             \<lparr>status_code = - 1, response_time = 30, response_size_bytes = 0,
               error = Some ''TimeoutError''\<rparr>]
   \<and> length [\<lparr>status_code = - 1, response_time = 0, response_size_bytes = 0,
               error = Some ''UnexpectedError: RuntimeError''\<rparr>,
             \<lparr>status_code = - 1, response_time = 1/100, response_size_bytes = 0,
               error = Some ''ClientError: ClientConnectorError''\<rparr>,
             \<lparr>status_code = - 1, response_time = 30, response_size_bytes = 0,
               error = Some ''TimeoutError''\<rparr>]
      = nat (requests \<lparr>url = ''http://localhost:8080/api'', http_method = ''GET'', requests = 3,
                        concurrent = 2, rate = 2\<rparr>)"
proof -
  have u: "[0..<3::nat] = [0, 1, 2]" by code_simp
  have s: "sort_key ((\<lambda>i. 30 :: real)(1 := 1/100, 2 := 0)) [0, 1, 2::nat] = [2, 1, 0]" by simp
  have h1: "1 \<le> requests \<lparr>url = ''http://localhost:8080/api'', http_method = ''GET'',
                   requests = 3, concurrent = 2, rate = 2\<rparr>"
    by simp
  have h3: "run_test \<lparr>url = ''http://localhost:8080/api'', http_method = ''GET'', requests = 3,
                concurrent = 2, rate = 2\<rparr>
        ((\<lambda>i. RaisesTimeoutError 30)
           (1 := RaisesClientError ''ClientConnectorError'' (1/100),
            2 := RaisesException ''RuntimeError'' 0))
        ((\<lambda>i. 30)(1 := 1/100, 2 := 0))
      = Inr [\<lparr>status_code = - 1, response_time = 0, response_size_bytes = 0,
               error = Some ''UnexpectedError: RuntimeError''\<rparr>,
             \<lparr>status_code = - 1, response_time = 1/100, response_size_bytes = 0,
               error = Some ''ClientError: ClientConnectorError''\<rparr>,
             \<lparr>status_code = - 1, response_time = 30, response_size_bytes = 0,
               error = Some ''TimeoutError''\<rparr>]"
    unfolding run_test_attempts by (simp add: u s)
  from run_test_collects_exactly_N[OF h1] h1 h3 show ?thesis by blast
qed

section \<open>Statistics\<close>

text \<open>
  A single answer with status 500 and no error: the list of successes is empty, and the
  latency section is there all the same, computed from that answer's 250 ms.
\<close>

theorem latency_only_over_successes_counterexample:
  "successes [\<lparr>status_code = 500, response_time = 1/4, response_size_bytes = 0, error = None\<rparr>] = []
   \<and> map_option latency
       (print_summary [\<lparr>status_code = 500, response_time = 1/4, response_size_bytes = 0, error = None\<rparr>] 1)
       = Some (Some \<lparr>average = 250, median = 250, minimum = 250, maximum = 250, standard_dev = 0,
                     p90 = 250, p95 = 250, p99 = 250\<rparr>)"
  by (simp add: successes_def is_success_def print_summary_def Let_def latency_section_def
        get_response_times_def np_mean_def np_min_def np_max_def np_std_def np_percentile_def)

text \<open>
  Claim C2, as the code has it. For a non-empty result list, the latency statistics are
  computed over the response times, in milliseconds, of the results whose error is
  \<open>None\<close>, whatever their status code; the latency section is omitted exactly when
  every result carries an error.
\<close>

theorem latency_over_error_free_results:
  "rs \<noteq> [] \<Longrightarrow>
   map_option latency (print_summary rs d) =
     Some (let samples = map (\<lambda>r. response_time r * 1000) (filter (\<lambda>r. error r = None) rs) in
           if samples = [] then None
           else Some \<lparr>average = np_mean samples, median = np_percentile samples 50,
                      minimum = np_min samples, maximum = np_max samples,
                      standard_dev = np_std samples, p90 = np_percentile samples 90,
                      p95 = np_percentile samples 95, p99 = np_percentile samples 99\<rparr>)
   \<and> (map_option latency (print_summary rs d) = Some None \<longleftrightarrow> (\<forall>r \<in> set rs. error r \<noteq> None))"
  by (auto simp: print_summary_def Let_def latency_section_def get_response_times_def
        filter_empty_conv comp_def)

text \<open>
  A success of 100 ms, a status 500 of 300 ms and a timeout: the reported average is
  200 ms, that of the first two.
\<close>

theorem latency_over_error_free_results_witness:
  "[\<lparr>status_code = 200, response_time = 1/10, response_size_bytes = 5, error = None\<rparr>,
    \<lparr>status_code = 500, response_time = 3/10, response_size_bytes = 0, error = None\<rparr>,
    \<lparr>status_code = - 1, response_time = 30, response_size_bytes = 0, error = Some ''TimeoutError''\<rparr>] \<noteq> []
   \<and> map_option (map_option average) (map_option latency (print_summary
      [\<lparr>status_code = 200, response_time = 1/10, response_size_bytes = 5, error = None\<rparr>,
       \<lparr>status_code = 500, response_time = 3/10, response_size_bytes = 0, error = None\<rparr>,
       \<lparr>status_code = - 1, response_time = 30, response_size_bytes = 0, error = Some ''TimeoutError''\<rparr>] 2))
     = Some (Some 200)"
proof -
  have h: "[\<lparr>status_code = 200, response_time = 1/10, response_size_bytes = 5, error = None\<rparr>,
    \<lparr>status_code = 500, response_time = 3/10, response_size_bytes = 0, error = None\<rparr>,
    \<lparr>status_code = - 1, response_time = 30, response_size_bytes = 0, error = Some ''TimeoutError''\<rparr>] \<noteq> []"
    by simp
  note e = conjunct1[OF latency_over_error_free_results[OF h, of 2]]
  show ?thesis unfolding e by (simp add: Let_def np_mean_def)
qed



text \<open>
  Claim C9. For a non-empty result list, the reported requests per second are the number
  of results divided by the duration, and the reported throughput is the total number
  of bytes times 8 divided by the duration times 1,000,000; both are 0 when the
  duration is not positive. (An empty result list has no report at all.)
\<close>

theorem rps_and_throughput:
  "rs \<noteq> [] \<Longrightarrow>
     map_option actual_rps (print_summary rs d) = Some (if d \<le> 0 then 0 else real (length rs) / d)
   \<and> map_option throughput_mbps (print_summary rs d) =
       Some (if d \<le> 0 then 0
             else real_of_int (sum_list (map response_size_bytes rs) * 8) / (d * 1000000))"
  by (simp add: print_summary_def Let_def)

text \<open>
  Two results with 750,000 bytes in all: over 4 seconds that is 0.5 requests per second
  and 1.5 Mbps; with a duration of \<open>-1\<close> both figures are 0.
\<close>

theorem rps_and_throughput_witness:
  "[\<lparr>status_code = 200, response_time = 1/10, response_size_bytes = 500000, error = None\<rparr>,
    \<lparr>status_code = 404, response_time = 1/5, response_size_bytes = 250000, error = None\<rparr>] \<noteq> []
   \<and> map_option actual_rps (print_summary
       [\<lparr>status_code = 200, response_time = 1/10, response_size_bytes = 500000, error = None\<rparr>,
        \<lparr>status_code = 404, response_time = 1/5, response_size_bytes = 250000, error = None\<rparr>] 4) = Some (1/2)
   \<and> map_option throughput_mbps (print_summary
       [\<lparr>status_code = 200, response_time = 1/10, response_size_bytes = 500000, error = None\<rparr>,
        \<lparr>status_code = 404, response_time = 1/5, response_size_bytes = 250000, error = None\<rparr>] 4) = Some (3/2)
   \<and> map_option actual_rps (print_summary
       [\<lparr>status_code = 200, response_time = 1/10, response_size_bytes = 500000, error = None\<rparr>,
        \<lparr>status_code = 404, response_time = 1/5, response_size_bytes = 250000, error = None\<rparr>] (- 1)) = Some 0
   \<and> map_option throughput_mbps (print_summary
       [\<lparr>status_code = 200, response_time = 1/10, response_size_bytes = 500000, error = None\<rparr>,
        \<lparr>status_code = 404, response_time = 1/5, response_size_bytes = 250000, error = None\<rparr>] (- 1)) = Some 0"
  using rps_and_throughput
          [of "[\<lparr>status_code = 200, response_time = 1/10, response_size_bytes = 500000, error = None\<rparr>,
                \<lparr>status_code = 404, response_time = 1/5, response_size_bytes = 250000, error = None\<rparr>]" 4]
        rps_and_throughput
          [of "[\<lparr>status_code = 200, response_time = 1/10, response_size_bytes = 500000, error = None\<rparr>,
                \<lparr>status_code = 404, response_time = 1/5, response_size_bytes = 250000, error = None\<rparr>]" "- 1"]
  by simp

text \<open>
  Claim C10. A result with a status code below 200 other than \<open>-1\<close> and with no error is
  counted neither as a success nor as a failure, so in a result set that holds one the
  reported numbers of successes and failures add up to less than the total.
\<close>

theorem success_failure_not_a_partition:
  assumes "r \<in> set rs" "status_code r < 200" "status_code r \<noteq> - 1" "error r = None"
    shows "r \<notin> set (successes rs) \<and> r \<notin> set (failures rs)
       \<and> length (successes rs) + length (failures rs) < length rs
       \<and> (\<exists>rep. print_summary rs d = Some rep \<and> n_successes rep + n_failures rep < total_reqs rep)"
proof -
  have ns: "\<not> is_success r" using assms by (simp add: is_success_def)
  have nf: "\<not> is_failure r" using assms by (simp add: is_failure_def truthy_def)
  have lt: "length (successes rs) + length (failures rs) < length rs"
    unfolding successes_def failures_def
    using success_not_failure assms(1) ns nf by (intro filter_disjoint_length) auto
  have ne: "rs \<noteq> []" using assms(1) by auto
  show ?thesis using ns nf lt ne by (simp add: successes_def failures_def print_summary_def Let_def)
qed

text \<open>One result with status 100: no success, no failure, one result in total.\<close>

theorem success_failure_not_a_partition_witness:
  "\<lparr>status_code = 100, response_time = 1/10, response_size_bytes = 0, error = None\<rparr>
      \<in> set [\<lparr>status_code = 100, response_time = 1/10, response_size_bytes = 0, error = None\<rparr>]
   \<and> status_code \<lparr>status_code = 100, response_time = 1/10, response_size_bytes = 0, error = None\<rparr> < 200
   \<and> length (successes [\<lparr>status_code = 100, response_time = 1/10, response_size_bytes = 0, error = None\<rparr>])
       + length (failures [\<lparr>status_code = 100, response_time = 1/10, response_size_bytes = 0, error = None\<rparr>])
       < length [\<lparr>status_code = 100, response_time = 1/10, response_size_bytes = 0, error = None\<rparr>]"
  using success_failure_not_a_partition
          [of "\<lparr>status_code = 100, response_time = 1/10, response_size_bytes = 0, error = None\<rparr>"
              "[\<lparr>status_code = 100, response_time = 1/10, response_size_bytes = 0, error = None\<rparr>]" 1]
  by simp

section \<open>Construction\<close>

text \<open>
  Claim C8. Constructing a tester raises \<open>ValueError\<close>, which \<open>main\<close> reports as a
  configuration error without running the test, exactly when the request count, the
  concurrency or the rate is not positive or the URL starts with neither \<open>http://\<close>
  nor \<open>https://\<close>; construction raises nothing else.
\<close>

theorem construction_fails_iff_invalid:
  "((\<exists>msg. AdvancedLoadTester c = Inl (ValueError msg)) \<longleftrightarrow>
      (requests c \<le> 0 \<or> concurrent c \<le> 0 \<or> rate c \<le> 0
       \<or> \<not> (prefix ''http://'' (url c) \<or> prefix ''https://'' (url c))))
   \<and> (isl (AdvancedLoadTester c) \<longleftrightarrow> (\<exists>msg. AdvancedLoadTester c = Inl (ValueError msg)))
   \<and> ((\<exists>msg. main c env finished_at total_time = ConfigurationError msg) \<longleftrightarrow>
        isl (AdvancedLoadTester c))"
proof -
  have b: "isl (AdvancedLoadTester c) \<longleftrightarrow> (\<exists>msg. AdvancedLoadTester c = Inl (ValueError msg))"
    using init_Inl[of c] by (cases "AdvancedLoadTester c") auto
  have c: "(\<exists>msg. main c env finished_at total_time = ConfigurationError msg) \<longleftrightarrow> isl (AdvancedLoadTester c)"
  proof (cases "AdvancedLoadTester c")
    case (Inl e)
    then show ?thesis using init_Inl[OF Inl] by (auto simp: main_def)
  next
    case (Inr t)
    then show ?thesis using collect_not_ValueError
      by (auto simp: main_def run_test_def split: sum.splits py_error.splits)
  qed
  from init_fails_iff[of c] b c show ?thesis by blast
qed

text \<open>
  A URL without scheme is refused, a negative concurrency is refused by the semaphore,
  and a valid configuration is accepted.
\<close>

theorem construction_fails_iff_invalid_witness:
  "AdvancedLoadTester \<lparr>url = ''localhost:8080'', http_method = ''GET'', requests = 5,
                        concurrent = 2, rate = 5\<rparr>
     = Inl (ValueError ''URL must start with http:// or https://'')
   \<and> AdvancedLoadTester \<lparr>url = ''http://localhost:8080'', http_method = ''GET'', requests = 5,
                        concurrent = - 1, rate = 5\<rparr>
     = Inl (ValueError ''Semaphore initial value must be >= 0'')
   \<and> isl (AdvancedLoadTester \<lparr>url = ''localhost:8080'', http_method = ''GET'', requests = 5,
                        concurrent = 2, rate = 5\<rparr>)
   \<and> \<not> isl (AdvancedLoadTester \<lparr>url = ''https://localhost:8080'', http_method = ''GET'', requests = 5,
                        concurrent = 2, rate = 5\<rparr>)"
proof -
  have a: "AdvancedLoadTester \<lparr>url = ''localhost:8080'', http_method = ''GET'', requests = 5,
                        concurrent = 2, rate = 5\<rparr>
     = Inl (ValueError ''URL must start with http:// or https://'')"
    by (simp add: AdvancedLoadTester_def Semaphore_def validate_config_def startswith_def)
  have b: "AdvancedLoadTester \<lparr>url = ''http://localhost:8080'', http_method = ''GET'', requests = 5,
                        concurrent = - 1, rate = 5\<rparr>
     = Inl (ValueError ''Semaphore initial value must be >= 0'')"
    by (simp add: AdvancedLoadTester_def Semaphore_def)
  have c: "isl (AdvancedLoadTester \<lparr>url = ''localhost:8080'', http_method = ''GET'', requests = 5,
                        concurrent = 2, rate = 5\<rparr>)"
    using construction_fails_iff_invalid
            [of "\<lparr>url = ''localhost:8080'', http_method = ''GET'', requests = 5,
                   concurrent = 2, rate = 5\<rparr>"]
    by simp
  have d: "\<not> isl (AdvancedLoadTester \<lparr>url = ''https://localhost:8080'', http_method = ''GET'',
                        requests = 5, concurrent = 2, rate = 5\<rparr>)"
    using construction_fails_iff_invalid
            [of "\<lparr>url = ''https://localhost:8080'', http_method = ''GET'', requests = 5,
                   concurrent = 2, rate = 5\<rparr>"]
    by simp
  from a b c d show ?thesis by blast
qed

section \<open>One request: order of the steps, delay, permits, error strings\<close>

text \<open>
  With a delay of one second, the sleep does not come before the semaphore is taken.
\<close>

theorem delay_before_permit_counterexample:
  "\<not> precedes (Sleep 1) Acquire (fst (single_request (Some 1) (Responds 200 0 0)))"
  by (simp add: precedes_def single_request_def)

text \<open>
  Claim C4, as the code has it. Every invocation first takes the semaphore. It sleeps
  exactly when its delay is not zero, and then after taking the semaphore and before
  giving it back, never before taking it. The HTTP call is made unless an exception is
  raised before it; when it is made, it comes after the semaphore is taken, after the
  sleep if there is one, and before the semaphore is given back.
\<close>

theorem permit_acquired_before_delay:
  "(\<forall>x. Sleep x \<in> set (fst (single_request d tr)) \<longleftrightarrow> d = Some x \<and> x \<noteq> 0)
   \<and> (\<forall>x. Sleep x \<in> set (fst (single_request d tr)) \<longrightarrow>
          precedes Acquire (Sleep x) (fst (single_request d tr))
        \<and> \<not> precedes (Sleep x) Acquire (fst (single_request d tr))
        \<and> precedes (Sleep x) Release (fst (single_request d tr))
        \<and> (HttpCall \<in> set (fst (single_request d tr)) \<longrightarrow>
             precedes (Sleep x) HttpCall (fst (single_request d tr))))
   \<and> precedes Acquire Release (fst (single_request d tr))
   \<and> (HttpCall \<in> set (fst (single_request d tr)) \<longleftrightarrow>
        (\<forall>name elapsed. tr \<noteq> RaisesBeforeCall name elapsed))
   \<and> (HttpCall \<in> set (fst (single_request d tr)) \<longrightarrow>
          precedes Acquire HttpCall (fst (single_request d tr))
        \<and> precedes HttpCall Release (fst (single_request d tr)))"
proof -
  have cm: "call_made tr \<longleftrightarrow> (\<forall>name elapsed. tr \<noteq> RaisesBeforeCall name elapsed)"
    by (cases tr) auto
  show ?thesis unfolding cm[symmetric]
    by (cases d; cases "call_made tr") (auto simp: single_request_def precedes_def)
qed

text \<open>
  With a delay of one second and a call that times out, the invocation takes the
  semaphore, sleeps, calls and gives the semaphore back; with no delay it does not
  sleep; with an unknown method it makes no call.
\<close>

theorem permit_acquired_before_delay_witness:
  "Sleep 1 \<in> set (fst (single_request (Some 1) (RaisesTimeoutError 30)))
   \<and> precedes Acquire (Sleep 1) (fst (single_request (Some 1) (RaisesTimeoutError 30)))
   \<and> precedes (Sleep 1) Release (fst (single_request (Some 1) (RaisesTimeoutError 30)))
   \<and> Sleep 0 \<notin> set (fst (single_request (Some 0) (RaisesTimeoutError 30)))
   \<and> HttpCall \<notin> set (fst (single_request (Some 1) (RaisesBeforeCall ''AttributeError'' 0)))"
proof -
  note t = permit_acquired_before_delay[of "Some 1" "RaisesTimeoutError 30"]
  from t have "\<forall>x. Sleep x \<in> set (fst (single_request (Some 1) (RaisesTimeoutError 30)))
                 \<longleftrightarrow> Some 1 = Some x \<and> x \<noteq> 0"
    by (rule conjunct1)
  then have a: "Sleep 1 \<in> set (fst (single_request (Some 1) (RaisesTimeoutError 30)))"
    by simp
  from t a have b: "precedes Acquire (Sleep 1) (fst (single_request (Some 1) (RaisesTimeoutError 30)))
      \<and> precedes (Sleep 1) Release (fst (single_request (Some 1) (RaisesTimeoutError 30)))"
    by blast
  from permit_acquired_before_delay[of "Some 0" "RaisesTimeoutError 30"]
  have "\<forall>x. Sleep x \<in> set (fst (single_request (Some 0) (RaisesTimeoutError 30)))
                 \<longleftrightarrow> Some 0 = Some x \<and> x \<noteq> 0"
    by (rule conjunct1)
  then have c: "Sleep 0 \<notin> set (fst (single_request (Some 0) (RaisesTimeoutError 30)))"
    by simp
  from permit_acquired_before_delay[of "Some 1" "RaisesBeforeCall ''AttributeError'' 0"]
  have d: "HttpCall \<notin> set (fst (single_request (Some 1) (RaisesBeforeCall ''AttributeError'' 0)))"
    by blast
  from a b c d show ?thesis by blast
qed

text \<open>
  Claim C7. For a rate \<open>R > 0\<close>, the delay given to request \<open>i\<close> is \<open>floor (i / R)\<close>
  seconds, and at least that many seconds pass between the moment its task starts
  running and its HTTP call, the wait for the semaphore and the excess of the sleep
  being non-negative.
\<close>

theorem scheduled_delay_floor:
  assumes "rate c > 0" "0 \<le> acquire_wait tm" "0 \<le> oversleep tm" "i < nat (requests c)"
  shows "delay c i = \<lfloor>real i / real_of_int (rate c)\<rfloor>
       \<and> tasks c env ! i = single_request (Some (delay c i)) (env i)
       \<and> real_of_int \<lfloor>real i / real_of_int (rate c)\<rfloor> \<le> time_before_call tm (fst (tasks c env ! i))"
proof -
  have d: "delay c i = \<lfloor>real i / real_of_int (rate c)\<rfloor>"
    using assms(1) floor_divide_of_int_eq[of "int i" "rate c", where ?'a = real]
    by (simp add: delay_def)
  have t: "tasks c env ! i = single_request (Some (delay c i)) (env i)"
    using assms(4) by (simp add: tasks_def)
  have "real_of_int (delay c i) \<le> time_before_call tm (fst (single_request (Some (delay c i)) (env i)))"
    using assms(2,3) by (simp add: time_before_call_trace)
  with d t show ?thesis by simp
qed

text \<open>Request 5 at rate 2: a delay of 2 seconds.\<close>

theorem scheduled_delay_floor_witness:
  "rate \<lparr>url = ''http://localhost:8080/api'', http_method = ''GET'', requests = 6,
          concurrent = 2, rate = 2\<rparr> > 0
   \<and> 0 \<le> acquire_wait \<lparr>acquire_wait = 1/2, oversleep = 1/100\<rparr>
   \<and> 0 \<le> oversleep \<lparr>acquire_wait = 1/2, oversleep = 1/100\<rparr>
   \<and> 5 < nat (requests \<lparr>url = ''http://localhost:8080/api'', http_method = ''GET'', requests = 6,
                         concurrent = 2, rate = 2\<rparr>)
   \<and> delay \<lparr>url = ''http://localhost:8080/api'', http_method = ''GET'', requests = 6,
             concurrent = 2, rate = 2\<rparr> 5 = 2
   \<and> 2 \<le> time_before_call \<lparr>acquire_wait = 1/2, oversleep = 1/100\<rparr>
            (fst (tasks \<lparr>url = ''http://localhost:8080/api'', http_method = ''GET'', requests = 6,
                         concurrent = 2, rate = 2\<rparr> (\<lambda>i. Responds 200 12 (1/200)) ! 5))"
proof -
  have h1: "rate \<lparr>url = ''http://localhost:8080/api'', http_method = ''GET'', requests = 6,
          concurrent = 2, rate = 2\<rparr> > 0" by simp
  have h2: "0 \<le> acquire_wait \<lparr>acquire_wait = 1/2, oversleep = 1/100\<rparr>" by simp
  have h3: "0 \<le> oversleep \<lparr>acquire_wait = 1/2, oversleep = 1/100\<rparr>" by simp
  have h4: "5 < nat (requests \<lparr>url = ''http://localhost:8080/api'', http_method = ''GET'',
                         requests = 6, concurrent = 2, rate = 2\<rparr>)" by simp
  have d: "delay \<lparr>url = ''http://localhost:8080/api'', http_method = ''GET'', requests = 6,
             concurrent = 2, rate = 2\<rparr> 5 = 2"
    by (simp add: delay_def)
  from scheduled_delay_floor[OF h1 h2 h3 h4, of "\<lambda>i. Responds 200 12 (1/200)"]
  have "real_of_int \<lfloor>real 5 / real_of_int (rate \<lparr>url = ''http://localhost:8080/api'',
             http_method = ''GET'', requests = 6, concurrent = 2, rate = 2\<rparr>)\<rfloor>
        \<le> time_before_call \<lparr>acquire_wait = 1/2, oversleep = 1/100\<rparr>
            (fst (tasks \<lparr>url = ''http://localhost:8080/api'', http_method = ''GET'', requests = 6,
                         concurrent = 2, rate = 2\<rparr> (\<lambda>i. Responds 200 12 (1/200)) ! 5))"
    by blast
  then have t: "2 \<le> time_before_call \<lparr>acquire_wait = 1/2, oversleep = 1/100\<rparr>
            (fst (tasks \<lparr>url = ''http://localhost:8080/api'', http_method = ''GET'', requests = 6,
                         concurrent = 2, rate = 2\<rparr> (\<lambda>i. Responds 200 12 (1/200)) ! 5))"
    by simp
  from h1 h2 h3 h4 d t show ?thesis by blast
qed

text \<open>
  Claim C5. After a successful construction with concurrency \<open>C\<close>, in every state that
  any interleaving of acquisitions, completions and cancellations reaches, the number
  of invocations holding the semaphore is at most \<open>C\<close> (it is \<open>C\<close> minus the value of the
  semaphore). An invocation that holds the semaphore gives it back when it finishes,
  whatever its HTTP call did (answer, timeout, any exception): the value goes up by one
  and the holders down by one, and leaving the semaphore is the last step of every
  invocation.
\<close>

theorem permits_bounded_and_released:
  assumes "AdvancedLoadTester c = Inr t" and "steps (start t) acts = Some s"
  shows "int (holders s) \<le> concurrent c
       \<and> sem_value s + int (holders s) = concurrent c
       \<and> (\<forall>i tr. i < length (phases s) \<and> phases s ! i = Holding \<longrightarrow>
            (\<exists>s'. step s (Finishes i tr) = Some s' \<and> sem_value s' = sem_value s + 1
                  \<and> holders s' + 1 = holders s \<and> phases s' ! i = Done (attempt tr)))
       \<and> (\<forall>d tr. last (fst (single_request d tr)) = Release)"
proof -
  from assms(1) have sem: "semaphore t = concurrent c" and pos: "0 < concurrent c"
    by (auto simp: AdvancedLoadTester_def Semaphore_def validate_config_def split: sum.splits if_splits)
  have "0 \<le> sem_value (start t)" using sem pos by (simp add: start_def)
  from steps_keep_total[OF assms(2) this] holders_start[of t] sem
  have tot: "sem_value s + int (holders s) = concurrent c" and nn: "0 \<le> sem_value s"
    by (simp_all add: start_def)
  from tot nn have "int (holders s) \<le> concurrent c" by simp
  with tot finish_step trace_ends_with_release show ?thesis by blast
qed

text \<open>
  Three requests, two permits: requests 0 and 1 hold the semaphore, request 0 times out
  and gives it back, request 2 takes it. Two invocations hold the semaphore at the end.
\<close>

theorem permits_bounded_and_released_witness:
  "AdvancedLoadTester \<lparr>url = ''http://localhost:8080/api'', http_method = ''GET'', requests = 3,
                        concurrent = 2, rate = 2\<rparr>
     = Inr \<lparr>cfg = \<lparr>url = ''http://localhost:8080/api'', http_method = ''GET'', requests = 3,
                    concurrent = 2, rate = 2\<rparr>, results = [], semaphore = 2\<rparr>
   \<and> steps (start \<lparr>cfg = \<lparr>url = ''http://localhost:8080/api'', http_method = ''GET'', requests = 3,
                            concurrent = 2, rate = 2\<rparr>, results = [], semaphore = 2\<rparr>)
        [Acquires 0, Acquires 1, Finishes 0 (RaisesTimeoutError 30), Acquires 2]
     = Some \<lparr>sem_value = 0,
             phases = [Done (Returned \<lparr>status_code = - 1, response_time = 30,
                                        response_size_bytes = 0, error = Some ''TimeoutError''\<rparr>),
                       Holding, Holding]\<rparr>
   \<and> int (holders \<lparr>sem_value = 0,
             phases = [Done (Returned \<lparr>status_code = - 1, response_time = 30,
                                        response_size_bytes = 0, error = Some ''TimeoutError''\<rparr>),
                       Holding, Holding]\<rparr>)
       \<le> concurrent \<lparr>url = ''http://localhost:8080/api'', http_method = ''GET'', requests = 3,
                      concurrent = 2, rate = 2\<rparr>"
proof -
  have h1: "AdvancedLoadTester \<lparr>url = ''http://localhost:8080/api'', http_method = ''GET'', requests = 3,
                        concurrent = 2, rate = 2\<rparr>
     = Inr \<lparr>cfg = \<lparr>url = ''http://localhost:8080/api'', http_method = ''GET'', requests = 3,
                    concurrent = 2, rate = 2\<rparr>, results = [], semaphore = 2\<rparr>"
    by (simp add: AdvancedLoadTester_def Semaphore_def validate_config_def startswith_def)
  have h2: "steps (start \<lparr>cfg = \<lparr>url = ''http://localhost:8080/api'', http_method = ''GET'', requests = 3,
                            concurrent = 2, rate = 2\<rparr>, results = [], semaphore = 2\<rparr>)
        [Acquires 0, Acquires 1, Finishes 0 (RaisesTimeoutError 30), Acquires 2]
     = Some \<lparr>sem_value = 0,
             phases = [Done (Returned \<lparr>status_code = - 1, response_time = 30,
                                        response_size_bytes = 0, error = Some ''TimeoutError''\<rparr>),
                       Holding, Holding]\<rparr>"
    by (simp add: start_def numeral_3_eq_3)
  from permits_bounded_and_released[OF h1 h2] h1 h2 show ?thesis by blast
qed

text \<open>
  An answer with status 500: the result is a failure and carries no error.
\<close>

theorem failure_without_error_tag_counterexample:
  "snd (single_request (Some 0) (Responds 500 0 (1/10)))
     = Returned \<lparr>status_code = 500, response_time = 1/10, response_size_bytes = 0, error = None\<rparr>
   \<and> is_failure \<lparr>status_code = 500, response_time = 1/10, response_size_bytes = 0, error = None\<rparr>
   \<and> error \<lparr>status_code = 500, response_time = 1/10, response_size_bytes = 0, error = None\<rparr> = None"
  by (simp add: single_request_def is_failure_def)

text \<open>
  Claim C6, as the code has it. Every result of a completed run either has no error, and
  then it records the HTTP answer of one of the requests with that answer's status code,
  whatever the code, or its error is \<open>TimeoutError\<close>, \<open>ClientError: \<close> or
  \<open>UnexpectedError: \<close> followed by the name of the exception, and then its status code
  is \<open>-1\<close> and it is a failure. Every success has no error. In the collection loop, a
  task that raised is given a result with status \<open>-1\<close> and the error \<open>TaskError: \<close>
  followed by the name of the exception, which is a failure, and these are the only
  results of the loop that no task returned.
\<close>

theorem error_strings_of_a_run:
  assumes "run_test c env finished_at = Inr rs" and "r \<in> set rs"
  shows "(error r = None \<or> error r = Some ''TimeoutError''
            \<or> (\<exists>name. error r = Some (''ClientError: '' @ name))
            \<or> (\<exists>name. error r = Some (''UnexpectedError: '' @ name)))
       \<and> (error r \<noteq> None \<longrightarrow> status_code r = - 1 \<and> is_failure r)
       \<and> (error r = None \<longrightarrow>
            (\<exists>k < nat (requests c). \<exists>len. env k = Responds (status_code r) len (response_time r)))
       \<and> (is_success r \<longrightarrow> error r = None)
       \<and> (\<forall>ts rs' r'. collect ts [] = Inr rs' \<and> r' \<in> set rs' \<longrightarrow>
            Returned r' \<in> set ts
          \<or> (\<exists>name. RaisedException name \<in> set ts
                \<and> r' = \<lparr>status_code = - 1, response_time = 0, response_size_bytes = 0,
                         error = Some (''TaskError: '' @ name)\<rparr>
                \<and> is_failure r'))
       \<and> (\<forall>name. collect [RaisedException name] []
                    = Inr [\<lparr>status_code = - 1, response_time = 0, response_size_bytes = 0,
                            error = Some (''TaskError: '' @ name)\<rparr>])"
proof -
  from all2_in_set[OF run_test_all2[OF assms(1)] assms(2)]
  obtain k where k: "k < nat (requests c)" "attempt (env k) = Returned r" by auto
  have A: "(error r = None \<or> error r = Some ''TimeoutError''
            \<or> (\<exists>name. error r = Some (''ClientError: '' @ name))
            \<or> (\<exists>name. error r = Some (''UnexpectedError: '' @ name)))
       \<and> (error r \<noteq> None \<longrightarrow> status_code r = - 1 \<and> is_failure r)
       \<and> (error r = None \<longrightarrow> (\<exists>len. env k = Responds (status_code r) len (response_time r)))"
    using k(2) by (cases "env k") (auto simp: is_failure_def)
  have B: "is_success r \<longrightarrow> error r = None" by (simp add: is_success_def)
  have C: "\<forall>ts rs' r'. collect ts [] = Inr rs' \<and> r' \<in> set rs' \<longrightarrow>
            Returned r' \<in> set ts
          \<or> (\<exists>name. RaisedException name \<in> set ts
                \<and> r' = \<lparr>status_code = - 1, response_time = 0, response_size_bytes = 0,
                         error = Some (''TaskError: '' @ name)\<rparr>
                \<and> is_failure r')"
    using collect_members TaskError_is_failure by (fastforce simp: TaskError_def)
  have D: "\<forall>name. collect [RaisedException name] []
                    = Inr [\<lparr>status_code = - 1, response_time = 0, response_size_bytes = 0,
                            error = Some (''TaskError: '' @ name)\<rparr>]"
    by (simp add: TaskError_def)
  from A B C D k(1) show ?thesis by blast
qed

text \<open>
  Two requests, the first answered with status 503 and the second refused by the
  server, which completes first: the results are a failure with a client error and a
  failure without error.
\<close>

theorem error_strings_of_a_run_witness:
  "run_test \<lparr>url = ''http://localhost:8080/api'', http_method = ''GET'', requests = 2,
              concurrent = 2, rate = 2\<rparr>
        ((\<lambda>i. Responds 503 19 (1/20))(1 := RaisesClientError ''ClientConnectorError'' (1/100)))
        ((\<lambda>i. 1/20)(1 := 1/100))
      = Inr [\<lparr>status_code = - 1, response_time = 1/100, response_size_bytes = 0,
               error = Some ''ClientError: ClientConnectorError''\<rparr>,
             \<lparr>status_code = 503, response_time = 1/20, response_size_bytes = 19, error = None\<rparr>]
   \<and> \<lparr>status_code = - 1, response_time = 1/100, response_size_bytes = 0,
       error = Some ''ClientError: ClientConnectorError''\<rparr>
       \<in> set [\<lparr>status_code = - 1, response_time = 1/100, response_size_bytes = 0,
                error = Some ''ClientError: ClientConnectorError''\<rparr>,
              \<lparr>status_code = 503, response_time = 1/20, response_size_bytes = 19, error = None\<rparr>]
   \<and> is_failure \<lparr>status_code = - 1, response_time = 1/100, response_size_bytes = 0,
                  error = Some ''ClientError: ClientConnectorError''\<rparr>"
proof -
  have u: "[0..<2::nat] = [0, 1]" by code_simp
  have s: "sort_key ((\<lambda>i. 1/20 :: real)(1 := 1/100)) [0, 1::nat] = [1, 0]" by simp
  have h2: "run_test \<lparr>url = ''http://localhost:8080/api'', http_method = ''GET'', requests = 2,
              concurrent = 2, rate = 2\<rparr>
        ((\<lambda>i. Responds 503 19 (1/20))(1 := RaisesClientError ''ClientConnectorError'' (1/100)))
        ((\<lambda>i. 1/20)(1 := 1/100))
      = Inr [\<lparr>status_code = - 1, response_time = 1/100, response_size_bytes = 0,
               error = Some ''ClientError: ClientConnectorError''\<rparr>,
             \<lparr>status_code = 503, response_time = 1/20, response_size_bytes = 19, error = None\<rparr>]"
    unfolding run_test_attempts by (simp add: u s)
  have h3: "\<lparr>status_code = - 1, response_time = 1/100, response_size_bytes = 0,
       error = Some ''ClientError: ClientConnectorError''\<rparr>
       \<in> set [\<lparr>status_code = - 1, response_time = 1/100, response_size_bytes = 0,
                error = Some ''ClientError: ClientConnectorError''\<rparr>,
              \<lparr>status_code = 503, response_time = 1/20, response_size_bytes = 19, error = None\<rparr>]"
    by simp
  from error_strings_of_a_run[OF h2 h3] have "is_failure \<lparr>status_code = - 1,
      response_time = 1/100, response_size_bytes = 0,
      error = Some ''ClientError: ClientConnectorError''\<rparr>"
    by simp
  with h2 h3 show ?thesis by blast
qed

end
